theory Spec2Isabelle
  imports Main "HOL-Library.Sublist"
begin

section \<open>Strings\<close>

text \<open>
  A Python \<open>str\<close> is modelled as a \<open>string\<close>, one \<open>char\<close> per code point; the model
  therefore covers text whose code points are below 256. An exception is represented by
  its message \<open>str(e)\<close>, which is all the program ever reads of it.
\<close>

type_synonym exn = string

definition startswith :: "string \<Rightarrow> string \<Rightarrow> bool" where
  \<comment> \<open>\<open>s.startswith(p)\<close>\<close>
  "startswith s p = (take (length p) s = p)"

fun contains :: "string \<Rightarrow> string \<Rightarrow> bool" where
  \<comment> \<open>\<open>x in s\<close> for strings: \<open>x\<close> occurs in \<open>s\<close> as a contiguous substring\<close>
  "contains x [] = (x = [])"
| "contains x (c # cs) = (startswith (c # cs) x \<or> contains x cs)"

definition ascii_upper :: string where
  "ascii_upper = ''ABCDEFGHIJKLMNOPQRSTUVWXYZ''"

definition ascii_lower :: string where
  "ascii_lower = ''abcdefghijklmnopqrstuvwxyz''"

definition lower_char :: "char \<Rightarrow> char" where
  "lower_char c = (case map_of (zip ascii_upper ascii_lower) c of Some l \<Rightarrow> l | None \<Rightarrow> c)"

definition upper_char :: "char \<Rightarrow> char" where
  "upper_char c = (case map_of (zip ascii_lower ascii_upper) c of Some u \<Rightarrow> u | None \<Rightarrow> c)"

definition upper :: "string \<Rightarrow> string" where
  \<comment> \<open>\<open>s.upper()\<close> on the ASCII letters\<close>
  "upper s = map upper_char s"

definition lower :: "string \<Rightarrow> string" where
  \<comment> \<open>\<open>s.lower()\<close> on the ASCII letters; the domains matched below are ASCII\<close>
  "lower s = map lower_char s"

definition is_space :: "char \<Rightarrow> bool" where
  \<comment> \<open>the code points below 256 that \<open>str.isspace\<close> accepts\<close>
  "is_space c = ((of_char c :: nat) \<in> {9, 10, 11, 12, 13, 28, 29, 30, 31, 32, 133, 160})"

definition strip :: "string \<Rightarrow> string" where
  \<comment> \<open>\<open>s.strip()\<close>\<close>
  "strip s = rev (dropWhile is_space (rev (dropWhile is_space s)))"

definition replace_char :: "char \<Rightarrow> char \<Rightarrow> string \<Rightarrow> string" where
  \<comment> \<open>\<open>s.replace(a, b)\<close> for one-character \<open>a\<close> and \<open>b\<close>\<close>
  "replace_char a b s = map (\<lambda>c. if c = a then b else c) s"

fun split_max :: "char \<Rightarrow> nat \<Rightarrow> string \<Rightarrow> string list" where
  \<comment> \<open>\<open>s.split(sep, maxsplit)\<close> for a one-character separator\<close>
  "split_max sep 0 s = [s]"
| "split_max sep (Suc n) s =
     (if sep \<in> set s
      then takeWhile (\<lambda>c. c \<noteq> sep) s # split_max sep n (tl (dropWhile (\<lambda>c. c \<noteq> sep) s))
      else [s])"

definition rsplit1_head :: "char \<Rightarrow> string \<Rightarrow> string" where
  \<comment> \<open>\<open>s.rsplit(sep, 1)[0]\<close>: the text before the last separator, all of \<open>s\<close> if there is none\<close>
  "rsplit1_head sep s =
     (if sep \<in> set s then rev (tl (dropWhile (\<lambda>c. c \<noteq> sep) (rev s))) else s)"

definition digit :: "nat \<Rightarrow> char" where
  "digit d = ''0123456789'' ! d"

function str_nat :: "nat \<Rightarrow> string" where
  \<comment> \<open>\<open>str(n)\<close> for \<open>n \<ge> 0\<close>\<close>
  "str_nat n = (if n < 10 then [digit n] else str_nat (n div 10) @ [digit (n mod 10)])"
  by pat_completeness auto
termination
  by (relation "measure id") auto

declare str_nat.simps [simp del]

definition str_int :: "int \<Rightarrow> string" where
  \<comment> \<open>\<open>str(i)\<close>, as an f-string interpolates an \<open>int\<close>\<close>
  "str_int i = (if i < 0 then CHR ''-'' # str_nat (nat (- i)) else str_nat (nat i))"

section \<open>URL classification (lines 53--62)\<close>

text \<open>
  \<open>urlparse(url).netloc\<close> of the standard library: leading C0 controls and spaces are
  dropped, tab, CR and LF are removed, a leading scheme (a letter followed by letters,
  digits, \<open>+\<close>, \<open>-\<close>, \<open>.\<close> up to the first colon) is cut off, and if the rest starts with
  \<open>//\<close> the netloc is the text up to the first \<open>/\<close>, \<open>?\<close> or \<open>#\<close>. One bracket without the
  other raises \<open>ValueError\<close>. The netloc is returned as written: \<open>urlparse\<close> does not
  change its case. (Recent interpreters also reject a bracketed host that is not an IP
  literal; hosts with brackets play no part below.)
\<close>

definition scheme_chars :: string where
  "scheme_chars = ascii_lower @ ascii_upper @ ''0123456789+-.''"

definition scheme_end :: "string \<Rightarrow> nat option" where
  "scheme_end url =
     (let i = length (takeWhile (\<lambda>c. c \<noteq> CHR '':'') url)
      in if CHR '':'' \<in> set url \<and> 0 < i \<and> hd url \<in> set (ascii_lower @ ascii_upper)
            \<and> list_all (\<lambda>c. c \<in> set scheme_chars) (take i url)
         then Some i else None)"

definition urlparse_netloc :: "string \<Rightarrow> exn + string" where
  "urlparse_netloc url0 =
     (let url = filter (\<lambda>c. (of_char c :: nat) \<notin> {9, 10, 13})
                  (dropWhile (\<lambda>c. (of_char c :: nat) \<le> 32) url0);
          rest = (case scheme_end url of Some i \<Rightarrow> drop (Suc i) url | None \<Rightarrow> url)
      in if startswith rest ''//''
         then (let netloc = takeWhile (\<lambda>c. c \<notin> set ''/?#'') (drop 2 rest)
               in if (CHR ''['' \<in> set netloc) \<noteq> (CHR '']'' \<in> set netloc)
                  then Inl ''Invalid IPv6 URL''
                  else Inr netloc)
         else Inr [])"

definition is_spotify_url :: "string \<Rightarrow> exn + bool" where
  "is_spotify_url url = map_sum id (\<lambda>netloc. contains ''spotify.com'' netloc) (urlparse_netloc url)"

definition is_pinterest_url :: "string \<Rightarrow> exn + bool" where
  "is_pinterest_url url =
     map_sum id (\<lambda>netloc. let domain = lower netloc
                          in contains ''pinterest.'' domain \<or> contains ''pin.it'' domain)
       (urlparse_netloc url)"

definition is_youtube_url :: "string \<Rightarrow> exn + bool" where
  "is_youtube_url url =
     map_sum id (\<lambda>netloc. let domain = lower netloc
                          in contains ''youtube.com'' domain \<or> contains ''youtu.be'' domain)
       (urlparse_netloc url)"

section \<open>Button payload (lines 221--222 and 236--239)\<close>

definition callback_data :: "string \<Rightarrow> string \<Rightarrow> string" where
  \<comment> \<open>\<open>f"yt|{fmt}|{url}"\<close>; the source writes it with \<open>fmt\<close> \<open>mp3\<close> and \<open>mp4\<close>\<close>
  "callback_data fmt url = ''yt|'' @ fmt @ ''|'' @ url"

definition parse_callback :: "string \<Rightarrow> exn + string \<times> string" where
  \<comment> \<open>\<open>_, fmt, url = data.split("|", 2)\<close>: fewer than three parts raise \<open>ValueError\<close>\<close>
  "parse_callback data =
     (case split_max CHR ''|'' 2 data of
        [_, fmt, url] \<Rightarrow> Inr (fmt, url)
      | _ \<Rightarrow> Inl ''not enough values to unpack (expected 3)'')"

section \<open>Transient storage, transport and collaborators\<close>

text \<open>
  A path is the list of its components below the working directory; transient storage
  is the set of paths that exist, files and directories alike. \<open>DOWNLOAD_DIR / name\<close>
  appends one component.
\<close>

type_synonym path = "string list"

definition DOWNLOAD_DIR :: path where
  "DOWNLOAD_DIR = [''downloads'']"

definition Path :: "string \<Rightarrow> path" where
  \<comment> \<open>\<open>Path(s)\<close>: the components of \<open>s\<close> between slashes, without empty ones and \<open>.\<close>\<close>
  "Path s = filter (\<lambda>c. c \<noteq> [] \<and> c \<noteq> ''.'') (split_max CHR ''/'' (length s) s)"

definition suffix_of :: "path \<Rightarrow> string" where
  \<comment> \<open>\<open>p.suffix\<close>: the last component from its last dot on, unless that dot comes first or last\<close>
  "suffix_of p =
     (let name = (if p = [] then [] else last p);
          ext = rev (takeWhile (\<lambda>c. c \<noteq> CHR ''.'') (rev name))
      in if CHR ''.'' \<in> set name \<and> ext \<noteq> [] \<and> Suc (length ext) < length name
         then CHR ''.'' # ext else [])"

record song =
  title :: string
  artist :: string

text \<open>
  The texts the program sends, one constructor per template of the source, with the
  interpolated values as arguments:
  \<^item> \<open>StartHelp\<close>: the help text of \<open>/start\<close> (line 186);
  \<^item> \<open>NoTracksFound\<close>: "No tracks found on Spotify." (line 132);
  \<^item> \<open>FoundTracks n\<close>: "Found n track(s). Downloading..." (line 136);
  \<^item> \<open>DownloadFailed\<close>: "Download failed - no files saved." (line 153);
  \<^item> \<open>ZipTooBig s\<close>: "ZIP is too big (s MB). Telegram limit is ~50 MB. ..." (line 170);
  \<^item> \<open>SpotifyError s\<close>: "Spotify error: s" (line 179);
  \<^item> \<open>YouTubeFailed s\<close>: "YouTube download failed: s" (line 90);
  \<^item> \<open>SpotifyDetected\<close>, \<open>PinterestDetected\<close>: the "detected" notices (lines 201, 205);
  \<^item> \<open>PinterestFailed\<close>: "Could not download Pinterest media (page changed?)." (line 216);
  \<^item> \<open>OnlySupported\<close>: "Only Spotify, Pinterest, YouTube links supported." (line 229).
\<close>

datatype notice =
    StartHelp
  | NoTracksFound
  | FoundTracks nat
  | DownloadFailed
  | ZipTooBig string
  | SpotifyError string
  | YouTubeFailed string
  | SpotifyDetected
  | PinterestDetected
  | PinterestFailed
  | OnlySupported

text \<open>
  The calls the program makes on the messaging transport. \<open>ReplyDocument\<close> carries the
  document and its caption, \<open>ReplyKeyboard\<close> the \<open>callback_data\<close> of the two format
  buttons under "YouTube detected - choose format:" (line 226).
\<close>

datatype outbound =
    ReplyText notice
  | ReplyKeyboard "string list"
  | ReplyDocument path string
  | ReplyPhoto path
  | ReplyVideo path
  | ReplyAudio path
  | AnswerQuery
  | EditMessageText string
  | DeleteMessage

text \<open>
  An inbound update is a text message or a button press, each with its chat. The
  transport library sets \<open>update.message\<close> for the first kind only: on a button press
  \<open>update.message\<close> is \<open>None\<close> and the message the button hangs on is
  \<open>update.callback_query.message\<close>.
\<close>

datatype update =
    MessageUpdate int string
  | CallbackUpdate int string

text \<open>
  What \<open>spotdl_client.download_song\<close> does for one track: it raises, it returns a falsy
  result (or a falsy first component), it saves the track and returns the file's path,
  or it returns a path without saving anything there.
\<close>

datatype fetch =
    Raises exn
  | Falsy
  | Saved path
  | Missing path

record tag =
  tag_name :: string
  attr :: "string \<Rightarrow> string option"

datatype call =
    Search string
  | DownloadSong song
  | ZipWrite path "path set"
  | HttpGet string
  | ExtractInfo string string

text \<open>
  The collaborators are inputs of the model:
  \<^item> \<open>hash_str\<close>: the interpreter's \<open>hash\<close> on strings, one function for the life of the
    process;
  \<^item> \<open>search\<close>: \<open>spotdl_client.search([url])\<close>, the tracks or an exception;
  \<^item> \<open>download_song\<close>: see \<open>fetch\<close>;
  \<^item> \<open>zip_write\<close>: writing the archive with the given entries, an exception or the byte
    size \<open>stat().st_size\<close> of the file written;
  \<^item> \<open>transport\<close>: whether the \<open>i\<close>-th call on the transport raises, and with what;
  \<^item> \<open>http_page\<close>: \<open>requests.get\<close> of a page and its parse, the tags in document order or
    an exception;
  \<^item> \<open>http_resource\<close>: \<open>requests.get\<close> of an image or video, possibly raising;
  \<^item> \<open>extract_info\<close>: the media-extraction library on a URL and a format, the name
    \<open>prepare_filename\<close> gives or an exception.
\<close>

record env =
  hash_str :: "string \<Rightarrow> int"
  search :: "string \<Rightarrow> exn + song list"
  download_song :: "song \<Rightarrow> fetch"
  zip_write :: "path \<Rightarrow> path set \<Rightarrow> exn + nat"
  transport :: "nat \<Rightarrow> outbound \<Rightarrow> exn option"
  http_page :: "string \<Rightarrow> exn + tag list"
  http_resource :: "string \<Rightarrow> exn option"
  extract_info :: "string \<Rightarrow> string \<Rightarrow> exn + string"

text \<open>
  The world a handler runs in: the paths on transient storage, every call made on the
  transport so far (delivered or not) and every call made on a collaborator.
\<close>

record world =
  files :: "path set"
  sends :: "outbound list"
  calls :: "call list"

text \<open>
  A step runs in a world and returns a value or raises, together with the world it
  leaves behind: what was written before an exception stays written.
\<close>

type_synonym 'a prog = "world \<Rightarrow> (exn + 'a) \<times> world"

definition ret :: "'a \<Rightarrow> 'a prog" where
  "ret x w = (Inr x, w)"

definition raise :: "exn \<Rightarrow> 'a prog" where
  "raise e w = (Inl e, w)"

definition seq :: "'a prog \<Rightarrow> ('a \<Rightarrow> 'b prog) \<Rightarrow> 'b prog" where
  "seq m f w = (case m w of (Inl e, w') \<Rightarrow> (Inl e, w') | (Inr x, w') \<Rightarrow> f x w')"

definition catch :: "'a prog \<Rightarrow> (exn \<Rightarrow> 'a prog) \<Rightarrow> 'a prog" where
  \<comment> \<open>\<open>try: m  except Exception as e: h e\<close>\<close>
  "catch m h w = (case m w of (Inl e, w') \<Rightarrow> h e w' | (Inr x, w') \<Rightarrow> (Inr x, w'))"

definition effect :: "(world \<Rightarrow> world) \<Rightarrow> unit prog" where
  "effect f w = (Inr (), f w)"

definition lift :: "exn + 'a \<Rightarrow> 'a prog" where
  "lift r w = (r, w)"

definition logged :: "call \<Rightarrow> world \<Rightarrow> world" where
  "logged c w = w\<lparr>calls := calls w @ [c]\<rparr>"

definition send :: "env \<Rightarrow> outbound \<Rightarrow> unit prog" where
  "send env msg w =
     (let w' = w\<lparr>sends := sends w @ [msg]\<rparr>
      in case transport env (length (sends w)) msg of
           None \<Rightarrow> (Inr (), w')
         | Some e \<Rightarrow> (Inl e, w'))"

definition message_reply :: "env \<Rightarrow> update \<Rightarrow> outbound \<Rightarrow> unit prog" where
  \<comment> \<open>\<open>await update.message.reply_...(...)\<close>\<close>
  "message_reply env upd msg =
     (case upd of
        MessageUpdate chat txt \<Rightarrow> send env msg
      | CallbackUpdate chat data \<Rightarrow> raise ''AttributeError: NoneType object has no attribute reply'')"

definition create :: "path \<Rightarrow> world \<Rightarrow> world" where
  "create p w = w\<lparr>files := insert p (files w)\<rparr>"

definition mkdir :: "path \<Rightarrow> world \<Rightarrow> world" where
  \<comment> \<open>\<open>p.mkdir(exist_ok=True)\<close>\<close>
  "mkdir p w = w\<lparr>files := insert p (files w)\<rparr>"

definition rename :: "path \<Rightarrow> path \<Rightarrow> world \<Rightarrow> world" where
  \<comment> \<open>\<open>src.rename(dst)\<close>: a file already at \<open>dst\<close> is replaced\<close>
  "rename src dst w = w\<lparr>files := insert dst (files w - {src})\<rparr>"

definition unlink :: "path \<Rightarrow> world \<Rightarrow> world" where
  \<comment> \<open>\<open>p.unlink(missing_ok=True)\<close>\<close>
  "unlink p w = w\<lparr>files := files w - {p}\<rparr>"

definition below :: "path \<Rightarrow> path set \<Rightarrow> path set" where
  \<comment> \<open>the paths of a set that lie below the directory \<open>d\<close>\<close>
  "below d A = {p \<in> A. strict_prefix d p}"

definition rmtree :: "path \<Rightarrow> world \<Rightarrow> world" where
  \<comment> \<open>\<open>shutil.rmtree(d, ignore_errors=True)\<close>: \<open>d\<close> and everything below it\<close>
  "rmtree d w = w\<lparr>files := files w - insert d (below d (files w))\<rparr>"

definition nonempty_dir :: "path \<Rightarrow> world \<Rightarrow> bool" where
  \<comment> \<open>\<open>any(d.iterdir())\<close>: \<open>d\<close> has a direct child\<close>
  "nonempty_dir d w = (\<exists>p \<in> files w. p \<noteq> [] \<and> butlast p = d)"

definition rglob :: "path \<Rightarrow> world \<Rightarrow> path set" where
  \<comment> \<open>\<open>d.rglob("*")\<close>: everything below \<open>d\<close>\<close>
  "rglob d w = below d (files w)"

definition relative_to :: "path \<Rightarrow> path \<Rightarrow> path" where
  "relative_to d p = drop (length d) p"

section \<open>Single-item download (lines 64--91)\<close>

text \<open>
  The extraction library writes the media and \<open>prepare_filename\<close> names the file; for
  \<open>mp3\<close> the post-processor leaves the audio under that name with the extension replaced,
  which is the name the function computes. The file is taken to exist at the path
  returned.
\<close>

definition ydl_extract :: "env \<Rightarrow> string \<Rightarrow> string \<Rightarrow> string prog" where
  "ydl_extract env url format_type =
     seq (effect (logged (ExtractInfo url format_type))) (\<lambda>_.
     lift (extract_info env url format_type))"

definition download_youtube :: "env \<Rightarrow> string \<Rightarrow> string \<Rightarrow> update \<Rightarrow> path option prog" where
  "download_youtube env url format_type upd =
     catch
       (seq (ydl_extract env url format_type) (\<lambda>filename.
        let filename' = (if format_type = ''mp3''
                         then rsplit1_head CHR ''.'' filename @ ''.mp3'' else filename)
        in seq (effect (create (Path filename'))) (\<lambda>_.
           ret (Some (Path filename')))))
       (\<lambda>e. seq (message_reply env upd (ReplyText (YouTubeFailed (take 200 e)))) (\<lambda>_.
            ret None))"

section \<open>Scrape download (lines 93--125)\<close>

definition img_src_ok :: "string option \<Rightarrow> bool" where
  \<comment> \<open>\<open>lambda s: s and any(x in s for x in [".jpg", ".png", "pinimg.com"])\<close>\<close>
  "img_src_ok s =
     (case s of
        None \<Rightarrow> False
      | Some v \<Rightarrow> v \<noteq> [] \<and> (contains ''.jpg'' v \<or> contains ''.png'' v \<or> contains ''pinimg.com'' v))"

definition find_tag :: "string \<Rightarrow> (string option \<Rightarrow> bool) \<Rightarrow> tag list \<Rightarrow> tag option" where
  \<comment> \<open>\<open>soup.find(name, {"src": f})\<close>: the first tag of that name whose \<open>src\<close> passes \<open>f\<close>\<close>
  "find_tag n f soup = find (\<lambda>t. tag_name t = n \<and> f (attr t ''src'')) soup"

definition absolute :: "string \<Rightarrow> string" where
  "absolute u = (if startswith u ''http'' then u else ''https:'' @ u)"

definition pin_file :: "env \<Rightarrow> string \<Rightarrow> string \<Rightarrow> path" where
  \<comment> \<open>\<open>DOWNLOAD_DIR / f"pin_{hash(url)}.jpg"\<close> and the same with \<open>.mp4\<close>\<close>
  "pin_file env url ext = DOWNLOAD_DIR @ [''pin_'' @ str_int (hash_str env url) @ ext]"

definition fetch_to :: "env \<Rightarrow> string \<Rightarrow> path \<Rightarrow> unit prog" where
  \<comment> \<open>\<open>with open(fname, "wb") as f: f.write(requests.get(u, headers=headers).content)\<close>:
      the file is opened, so created, before the request is made\<close>
  "fetch_to env u fname =
     seq (effect (create fname)) (\<lambda>_.
     seq (effect (logged (HttpGet u))) (\<lambda>_.
     lift (case http_resource env u of None \<Rightarrow> Inr () | Some e \<Rightarrow> Inl e)))"

definition download_pinterest_body :: "env \<Rightarrow> string \<Rightarrow> path list option prog" where
  "download_pinterest_body env url =
     seq (effect (logged (HttpGet url))) (\<lambda>_.
     seq (lift (http_page env url)) (\<lambda>soup.
     seq (case find_tag ''img'' img_src_ok soup of
            None \<Rightarrow> ret []
          | Some img_tag \<Rightarrow>
              (case attr img_tag ''src'' of
                 None \<Rightarrow> ret []
               | Some src \<Rightarrow>
                   if src = [] then ret []
                   else seq (fetch_to env (absolute src) (pin_file env url ''.jpg'')) (\<lambda>_.
                        ret [pin_file env url ''.jpg'']))) (\<lambda>media.
     seq (case find_tag ''video'' (\<lambda>s. s \<noteq> None) soup of
            None \<Rightarrow> ret media
          | Some video_tag \<Rightarrow>
              (case attr video_tag ''src'' of
                 None \<Rightarrow> raise ''KeyError''
               | Some src \<Rightarrow>
                   seq (fetch_to env (absolute src) (pin_file env url ''.mp4'')) (\<lambda>_.
                   ret (media @ [pin_file env url ''.mp4''])))) (\<lambda>media.
     ret (if media = [] then None else Some media)))))"

definition download_pinterest :: "env \<Rightarrow> string \<Rightarrow> path list option prog" where
  \<comment> \<open>the \<open>except\<close> branch logs the error and returns \<open>None\<close>\<close>
  "download_pinterest env url = catch (download_pinterest_body env url) (\<lambda>e. ret None)"

section \<open>Batch download (lines 127--179)\<close>

definition batch_name :: "song list \<Rightarrow> string" where
  \<comment> \<open>\<open>songs[0].artist if len(songs) == 1 else "Playlist"\<close>, for a non-empty list\<close>
  "batch_name songs = (if length songs = 1 then artist (hd songs) else ''Playlist'')"

definition temp_dir_of :: "env \<Rightarrow> string \<Rightarrow> path" where
  \<comment> \<open>\<open>DOWNLOAD_DIR / f"temp_{hash(url)}"\<close>\<close>
  "temp_dir_of env url = DOWNLOAD_DIR @ [''temp_'' @ str_int (hash_str env url)]"

definition zip_path_of :: "string \<Rightarrow> path" where
  \<comment> \<open>\<open>DOWNLOAD_DIR / f"{name.replace(' ', '_')}.zip"\<close>\<close>
  "zip_path_of name = DOWNLOAD_DIR @ [replace_char CHR '' '' CHR ''_'' name @ ''.zip'']"

definition move_in :: "path \<Rightarrow> path \<Rightarrow> unit prog" where
  \<comment> \<open>\<open>if song_file.exists(): song_file.rename(temp_dir / song_file.name)\<close>; a path
      without components is the working directory, which cannot be renamed\<close>
  "move_in temp_dir song_file w =
     (if song_file \<notin> files w then (Inr (), w)
      else if song_file = [] then (Inl ''OSError'', w)
      else (Inr (), rename song_file (temp_dir @ [last song_file]) w))"

definition download_one :: "env \<Rightarrow> path \<Rightarrow> song \<Rightarrow> unit prog" where
  \<comment> \<open>the body of the \<open>try\<close> of lines 143--148\<close>
  "download_one env temp_dir s =
     seq (effect (logged (DownloadSong s))) (\<lambda>_.
     case download_song env s of
       Raises e \<Rightarrow> raise e
     | Falsy \<Rightarrow> ret ()
     | Saved p \<Rightarrow> seq (effect (create p)) (\<lambda>_. move_in temp_dir p)
     | Missing p \<Rightarrow> move_in temp_dir p)"

fun download_songs :: "env \<Rightarrow> path \<Rightarrow> song list \<Rightarrow> world \<Rightarrow> world" where
  \<comment> \<open>the loop of lines 142--150: the bare \<open>except\<close> drops whatever the body raises\<close>
  "download_songs env temp_dir [] w = w"
| "download_songs env temp_dir (s # ss) w =
     download_songs env temp_dir ss (snd (download_one env temp_dir s w))"

definition write_zip :: "env \<Rightarrow> path \<Rightarrow> path \<Rightarrow> nat prog" where
  \<comment> \<open>lines 158--160, returning the size that \<open>zip_path.stat().st_size\<close> reads next\<close>
  "write_zip env zip_path temp_dir w =
     (let entries = relative_to temp_dir ` rglob temp_dir w;
          w' = logged (ZipWrite zip_path entries) w
      in case zip_write env zip_path entries of
           Inl e \<Rightarrow> (Inl e, w')
         | Inr st_size \<Rightarrow> (Inr st_size, create zip_path w'))"

text \<open>
  \<open>file_size_mb = st_size / (1024 * 1024)\<close> is the exact quotient for every size below
  \<open>2 ^ 53\<close> bytes (a division by a power of two), so \<open>file_size_mb < 48\<close> compares
  \<open>st_size\<close> with \<open>48 * 1024 * 1024\<close>, and \<open>f"{file_size_mb:.1f}"\<close> prints the tenth nearest
  to the quotient, the even one of two equally near. From \<open>2 ^ 53\<close> bytes on the quotient
  is itself rounded first: the comparison comes out the same, and \<open>tenths_mb\<close> describes
  the printed text for sizes below \<open>2 ^ 53\<close> only.
\<close>

definition below_ceiling :: "nat \<Rightarrow> bool" where
  "below_ceiling st_size = (st_size < 48 * (1024 * 1024))"

definition tenths_mb :: "nat \<Rightarrow> nat" where
  "tenths_mb st_size =
     (let q = (10 * st_size) div (1024 * 1024); r = (10 * st_size) mod (1024 * 1024)
      in if 1024 * 1024 < 2 * r \<or> (2 * r = 1024 * 1024 \<and> odd q) then q + 1 else q)"

definition fmt_1f_mb :: "nat \<Rightarrow> string" where
  "fmt_1f_mb st_size =
     str_nat (tenths_mb st_size div 10) @ ''.'' @ str_nat (tenths_mb st_size mod 10)"

definition caption :: "string \<Rightarrow> nat \<Rightarrow> string" where
  \<comment> \<open>\<open>f"Spotify download: {name} ({len(songs)} tracks)"\<close>\<close>
  "caption name n = ''Spotify download: '' @ name @ '' ('' @ str_nat n @ '' tracks)''"

definition size_gate :: "env \<Rightarrow> update \<Rightarrow> string \<Rightarrow> nat \<Rightarrow> path \<Rightarrow> path \<Rightarrow> nat \<Rightarrow> unit prog" where
  \<comment> \<open>lines 162--176: send or refuse, then the cleanup\<close>
  "size_gate env upd name n temp_dir zip_path st_size =
     seq (if below_ceiling st_size
          then message_reply env upd (ReplyDocument zip_path (caption name n))
          else message_reply env upd (ReplyText (ZipTooBig (fmt_1f_mb st_size)))) (\<lambda>_.
     seq (effect (rmtree temp_dir)) (\<lambda>_.
     effect (unlink zip_path)))"

definition process_spotify_body :: "env \<Rightarrow> string \<Rightarrow> update \<Rightarrow> unit prog" where
  \<comment> \<open>the body of the \<open>try\<close> of lines 129--176\<close>
  "process_spotify_body env url upd =
     seq (effect (logged (Search url))) (\<lambda>_.
     seq (lift (search env url)) (\<lambda>songs.
     if songs = [] then message_reply env upd (ReplyText NoTracksFound)
     else
       let name = batch_name songs in
       seq (message_reply env upd (ReplyText (FoundTracks (length songs)))) (\<lambda>_.
       let temp_dir = temp_dir_of env url; zip_path = zip_path_of name in
       seq (effect (mkdir temp_dir)) (\<lambda>_.
       seq (effect (download_songs env temp_dir songs)) (\<lambda>_.
       seq (\<lambda>w. (Inr (nonempty_dir temp_dir w), w)) (\<lambda>any_file.
       if \<not> any_file then
         seq (message_reply env upd (ReplyText DownloadFailed)) (\<lambda>_.
         effect (rmtree temp_dir))
       else
         seq (write_zip env zip_path temp_dir) (\<lambda>st_size.
         size_gate env upd name (length songs) temp_dir zip_path st_size)))))))"

definition process_spotify :: "env \<Rightarrow> string \<Rightarrow> update \<Rightarrow> unit prog" where
  "process_spotify env url upd =
     catch (process_spotify_body env url upd)
       (\<lambda>e. message_reply env upd (ReplyText (SpotifyError (take 300 e))))"

section \<open>Handlers (lines 185--252)\<close>

definition start :: "env \<Rightarrow> update \<Rightarrow> unit prog" where
  "start env upd = message_reply env upd (ReplyText StartHelp)"

definition open_rb :: "path \<Rightarrow> unit prog" where
  \<comment> \<open>\<open>f.open("rb")\<close>\<close>
  "open_rb f w = (if f \<in> files w then (Inr (), w) else (Inl ''FileNotFoundError'', w))"

fun send_media :: "env \<Rightarrow> update \<Rightarrow> path list \<Rightarrow> unit prog" where
  \<comment> \<open>the loop of lines 208--212\<close>
  "send_media env upd [] = ret ()"
| "send_media env upd (f # fs) =
     seq (open_rb f) (\<lambda>_.
     seq (message_reply env upd
            (if lower (suffix_of f) = ''.mp4'' then ReplyVideo f else ReplyPhoto f)) (\<lambda>_.
     send_media env upd fs))"

fun unlink_all :: "path list \<Rightarrow> world \<Rightarrow> world" where
  \<comment> \<open>the loop of lines 213--214\<close>
  "unlink_all [] w = w"
| "unlink_all (f # fs) w = unlink_all fs (unlink f w)"

definition spawn :: "unit prog \<Rightarrow> unit prog" where
  \<comment> \<open>\<open>asyncio.create_task(task)\<close>: what the task raises stays in the task. The task is
      run to its end on the spot; other handlers are not interleaved with it.\<close>
  "spawn task w = (Inr (), snd (task w))"

definition ensuring :: "'a prog \<Rightarrow> (world \<Rightarrow> world) \<Rightarrow> 'a prog" where
  \<comment> \<open>\<open>try: m  finally: f\<close>\<close>
  "ensuring m f w = (case m w of (r, w') \<Rightarrow> (r, f w'))"

definition handle_message :: "env \<Rightarrow> update \<Rightarrow> unit prog" where
  "handle_message env upd =
     (case upd of
        CallbackUpdate chat data \<Rightarrow> raise ''AttributeError: NoneType object has no attribute text''
      | MessageUpdate chat raw \<Rightarrow>
          let txt = strip raw in
          if \<not> (startswith txt ''http://'' \<or> startswith txt ''https://'') then ret ()
          else
            let url = txt in
            seq (lift (is_spotify_url url)) (\<lambda>spotify.
            if spotify then
              seq (message_reply env upd (ReplyText SpotifyDetected)) (\<lambda>_.
              spawn (process_spotify env url upd))
            else
              seq (lift (is_pinterest_url url)) (\<lambda>pinterest.
              if pinterest then
                seq (message_reply env upd (ReplyText PinterestDetected)) (\<lambda>_.
                seq (download_pinterest env url) (\<lambda>media.
                case media of
                  Some (f # fs) \<Rightarrow>
                    seq (send_media env upd (f # fs)) (\<lambda>_.
                    effect (unlink_all (f # fs)))
                | _ \<Rightarrow> message_reply env upd (ReplyText PinterestFailed)))
              else
                seq (lift (is_youtube_url url)) (\<lambda>youtube.
                if youtube then
                  message_reply env upd
                    (ReplyKeyboard [callback_data ''mp3'' url, callback_data ''mp4'' url])
                else message_reply env upd (ReplyText OnlySupported)))))"

definition button_callback :: "env \<Rightarrow> update \<Rightarrow> unit prog" where
  "button_callback env upd =
     (case upd of
        MessageUpdate chat txt \<Rightarrow> raise ''AttributeError: NoneType object has no attribute answer''
      | CallbackUpdate chat data \<Rightarrow>
          seq (send env AnswerQuery) (\<lambda>_.
          if \<not> startswith data ''yt|'' then ret ()
          else
            seq (lift (parse_callback data)) (\<lambda>(fmt, url).
            seq (send env (EditMessageText (''Downloading as '' @ upper fmt @ ''...''))) (\<lambda>_.
            seq (download_youtube env url fmt upd) (\<lambda>file_path.
            seq (case file_path of
                   None \<Rightarrow> ret ()
                 | Some p \<Rightarrow>
                     ensuring
                       (seq (open_rb p) (\<lambda>_.
                        send env (if fmt = ''mp3'' then ReplyAudio p else ReplyVideo p)))
                       (unlink p)) (\<lambda>_.
            send env DeleteMessage))))))"

section \<open>Notions used to state the batch property\<close>



section \<open>Sample inputs\<close>

text \<open>
  A collaborator set-up in which everything works: one track is found and saved, the
  archive is small, the transport delivers every call, the scraped page has no media and
  media extraction fails with the message \<open>boom\<close>. The examples below change one
  collaborator at a time.
\<close>

definition demo_song :: song where
  "demo_song = \<lparr>title = ''Track'', artist = ''Some Artist''\<rparr>"

definition demo_env :: env where
  "demo_env =
     \<lparr>hash_str = (\<lambda>_. 7),
      search = (\<lambda>_. Inr [demo_song]),
      download_song = (\<lambda>s. Saved [title s @ ''.mp3'']),
      zip_write = (\<lambda>_ _. Inr 1000),
      transport = (\<lambda>_ _. None),
      http_page = (\<lambda>_. Inr []),
      http_resource = (\<lambda>_. None),
      extract_info = (\<lambda>_ _. Inl ''boom'')\<rparr>"

definition fresh :: world where
  \<comment> \<open>the storage after start-up: only \<open>DOWNLOAD_DIR\<close> exists\<close>
  "fresh = \<lparr>files = {DOWNLOAD_DIR}, sends = [], calls = []\<rparr>"

definition refusing_documents :: "nat \<Rightarrow> outbound \<Rightarrow> exn option" where
  \<comment> \<open>a transport on which every document upload times out\<close>
  "refusing_documents i msg = (case msg of ReplyDocument _ _ \<Rightarrow> Some ''Timed out'' | _ \<Rightarrow> None)"

definition refusing_audio :: "nat \<Rightarrow> outbound \<Rightarrow> exn option" where
  \<comment> \<open>a transport on which every audio upload times out\<close>
  "refusing_audio i msg = (case msg of ReplyAudio _ \<Rightarrow> Some ''Timed out'' | _ \<Rightarrow> None)"

definition flaky_env :: env where
  \<comment> \<open>the track titled \<open>Bad\<close> cannot be fetched\<close>
  "flaky_env = demo_env\<lparr>download_song :=
     (\<lambda>s. if title s = ''Bad'' then Raises ''boom'' else Saved [title s @ ''.mp3''])\<rparr>"

definition song_a :: song where
  "song_a = \<lparr>title = ''A'', artist = ''X''\<rparr>"

definition song_bad :: song where
  "song_bad = \<lparr>title = ''Bad'', artist = ''X''\<rparr>"

definition song_b :: song where
  "song_b = \<lparr>title = ''B'', artist = ''X''\<rparr>"







section \<open>Auxiliary facts\<close>

lemmas prog_defs = ret_def raise_def seq_def catch_def effect_def lift_def logged_def send_def
  message_reply_def create_def mkdir_def rename_def unlink_def rmtree_def nonempty_dir_def
  rglob_def relative_to_def spawn_def ensuring_def open_rb_def

lemmas str_defs = startswith_def lower_def lower_char_def upper_def upper_char_def
  ascii_upper_def ascii_lower_def is_space_def strip_def replace_char_def rsplit1_head_def
  digit_def str_int_def scheme_chars_def scheme_end_def urlparse_netloc_def
  is_spotify_url_def is_pinterest_url_def is_youtube_url_def

lemmas spotify_defs = process_spotify_def process_spotify_body_def download_one_def
  move_in_def write_zip_def size_gate_def below_ceiling_def batch_name_def temp_dir_of_def
  zip_path_of_def DOWNLOAD_DIR_def str_int_def str_nat.simps digit_def replace_char_def
  caption_def

lemma below_empty: "below d {} = {}"
  by (simp add: below_def)

lemma below_insert:
  "below d (insert a A) = (if strict_prefix d a then insert a (below d A) else below d A)"
  by (auto simp: below_def)

lemma below_remove: "below d (A - B) = below d A - B"
  by (auto simp: below_def)

lemmas below_eval = below_empty below_insert below_remove

lemma takeWhile_sep: "sep \<notin> set a \<Longrightarrow> takeWhile (\<lambda>c. c \<noteq> sep) (a @ sep # rest) = a"
  by (induction a) auto

lemma dropWhile_sep:
  "sep \<notin> set a \<Longrightarrow> dropWhile (\<lambda>c. c \<noteq> sep) (a @ sep # rest) = sep # rest"
  by (induction a) auto

lemma download_one_sends: "sends (snd (download_one env d s w)) = sends w"
  by (simp add: download_one_def move_in_def prog_defs split: fetch.splits)

lemma download_one_calls: "calls (snd (download_one env d s w)) = calls w @ [DownloadSong s]"
  by (simp add: download_one_def move_in_def prog_defs split: fetch.splits)

lemma download_songs_sends: "sends (download_songs env d ss w) = sends w"
  by (induction ss arbitrary: w) (simp_all add: download_one_sends)

lemma download_songs_calls: "calls (download_songs env d ss w) = calls w @ map DownloadSong ss"
  by (induction ss arbitrary: w) (simp_all add: download_one_calls)

lemma download_songs_append:
  "download_songs env d (xs @ ys) w = download_songs env d ys (download_songs env d xs w)"
  by (induction xs arbitrary: w) simp_all

lemma download_one_files_cong:
  "files w1 = files w2 \<Longrightarrow>
     files (snd (download_one env d s w1)) = files (snd (download_one env d s w2))"
  by (simp add: download_one_def move_in_def prog_defs split: fetch.splits)

lemma download_songs_files_cong:
  "files w1 = files w2 \<Longrightarrow>
     files (download_songs env d ss w1) = files (download_songs env d ss w2)"
proof (induction ss arbitrary: w1 w2)
  case Nil
  then show ?case by simp
next
  case (Cons s ss)
  from Cons.prems
  have "files (snd (download_one env d s w1)) = files (snd (download_one env d s w2))"
    by (rule download_one_files_cong)
  then have "files (download_songs env d ss (snd (download_one env d s w1)))
           = files (download_songs env d ss (snd (download_one env d s w2)))"
    by (rule Cons.IH)
  then show ?case by simp
qed

lemma download_one_failed:
  "download_song env s = Raises e \<or> download_song env s = Falsy \<Longrightarrow>
     files (snd (download_one env d s w)) = files w"
  by (auto simp add: download_one_def prog_defs)

lemma fetch_to_sends: "sends (snd (fetch_to env u f w)) = sends w"
  by (simp add: fetch_to_def prog_defs split: option.splits)






















lemma below_outside_insert: "\<not> prefix d p \<Longrightarrow> below d (insert p A) = below d A"
  by (auto simp add: below_def)


lemma below_subset: "below d A \<subseteq> A"
  by (auto simp add: below_def)






















section \<open>Button payload round trip\<close>

text \<open>
  C10. A payload built as \<open>yt|fmt|url\<close> from a format without \<open>|\<close> and any URL (with or
  without \<open>|\<close>) passes the \<open>startswith("yt|")\<close> test of the button handler, and its
  \<open>split("|", 2)\<close> gives back exactly that format and that URL.
\<close>

theorem callback_roundtrip:
  "CHR ''|'' \<notin> set fmt \<Longrightarrow>
     startswith (callback_data fmt url) ''yt|'' \<and>
     parse_callback (callback_data fmt url) = Inr (fmt, url)"
proof -
  assume fmt: "CHR ''|'' \<notin> set fmt"
  have "split_max CHR ''|'' (Suc (Suc 0)) (''yt'' @ CHR ''|'' # (fmt @ CHR ''|'' # url))
          = [''yt'', fmt, url]"
    using fmt by (simp add: takeWhile_sep dropWhile_sep)
  then show ?thesis
    by (simp add: parse_callback_def callback_data_def startswith_def numeral_2_eq_2)
qed

theorem callback_roundtrip_witness:
  "CHR ''|'' \<notin> set ''mp3'' \<and>
   parse_callback (callback_data ''mp3'' ''https://youtu.be/a|b'')
     = Inr (''mp3'', ''https://youtu.be/a|b'')"
  using callback_roundtrip [of "''mp3''" "''https://youtu.be/a|b''"] by simp

section \<open>Classification\<close>

text \<open>
  The text \<open>not a url\<close> gets no answer: the handler makes no call on the transport, so in
  particular it does not send exactly one text.
\<close>

theorem silent_on_plain_text:
  "sends (snd (handle_message demo_env (MessageUpdate 1 ''not a url'') fresh)) = [] \<and>
   \<not> (\<exists>t. sends (snd (handle_message demo_env (MessageUpdate 1 ''not a url'') fresh))
           = [ReplyText t])"
  by (simp add: handle_message_def str_defs prog_defs fresh_def)

text \<open>
  C4, as the code has it. A text that, once stripped, does not begin with \<open>http://\<close> or
  \<open>https://\<close> ends the handler at the guard of line 195: the world is left as it was, so
  no collaborator is called, nothing is written and no reply at all is sent. (The reply
  "Only Spotify, Pinterest, YouTube links supported." belongs to the last branch, for a
  text with a scheme whose host matches no platform.)
\<close>

theorem no_scheme_no_effect:
  "\<not> (startswith (strip raw) ''http://'' \<or> startswith (strip raw) ''https://'') \<Longrightarrow>
     handle_message env (MessageUpdate chat raw) w = (Inr (), w)"
  by (simp add: handle_message_def ret_def)

theorem no_scheme_no_effect_witness:
  "\<not> (startswith (strip ''not a url'') ''http://'' \<or> startswith (strip ''not a url'') ''https://'') \<and>
   handle_message demo_env (MessageUpdate 1 ''not a url'') fresh = (Inr (), fresh)"
  using no_scheme_no_effect [of "''not a url''" demo_env 1 fresh] by (simp add: str_defs)

text \<open>
  C9. The Spotify test reads the netloc as written, the Pinterest and YouTube tests read
  it in lower case. So \<open>https://OPEN.SPOTIFY.COM/track/1\<close> is not taken for Spotify (nor
  for anything else: the handler answers with the "only ... supported" text), while the
  upper-case spellings of the Pinterest and YouTube hosts, short-link hosts included, are
  recognised and handled as such.
\<close>

theorem host_case:
  "is_spotify_url ''https://open.spotify.com/track/1'' = Inr True \<and>
   is_spotify_url ''https://OPEN.SPOTIFY.COM/track/1'' = Inr False \<and>
   sends (snd (handle_message demo_env (MessageUpdate 1 ''https://OPEN.SPOTIFY.COM/track/1'') fresh))
     = [ReplyText OnlySupported] \<and>
   is_pinterest_url ''https://WWW.PINTEREST.COM/pin/1'' = Inr True \<and>
   is_pinterest_url ''https://PIN.IT/abc'' = Inr True \<and>
   is_youtube_url ''https://WWW.YOUTUBE.COM/watch?v=1'' = Inr True \<and>
   is_youtube_url ''https://YOUTU.BE/abc'' = Inr True \<and>
   sends (snd (handle_message demo_env (MessageUpdate 1 ''https://PIN.IT/abc'') fresh))
     = [ReplyText PinterestDetected, ReplyText PinterestFailed] \<and>
   sends (snd (handle_message demo_env (MessageUpdate 1 ''https://YOUTU.BE/abc'') fresh))
     = [ReplyKeyboard [''yt|mp3|https://YOUTU.BE/abc'', ''yt|mp4|https://YOUTU.BE/abc'']]"
proof -
  have a: "is_spotify_url ''https://open.spotify.com/track/1'' = Inr True"
    by (simp add: str_defs)
  have b: "is_spotify_url ''https://OPEN.SPOTIFY.COM/track/1'' = Inr False"
    by (simp add: str_defs)
  have b1: "is_pinterest_url ''https://OPEN.SPOTIFY.COM/track/1'' = Inr False"
    by (simp add: str_defs)
  have b2: "is_youtube_url ''https://OPEN.SPOTIFY.COM/track/1'' = Inr False"
    by (simp add: str_defs)
  have c: "is_pinterest_url ''https://WWW.PINTEREST.COM/pin/1'' = Inr True"
    by (simp add: str_defs)
  have d: "is_pinterest_url ''https://PIN.IT/abc'' = Inr True"
    by (simp add: str_defs)
  have d1: "is_spotify_url ''https://PIN.IT/abc'' = Inr False"
    by (simp add: str_defs)
  have e: "is_youtube_url ''https://WWW.YOUTUBE.COM/watch?v=1'' = Inr True"
    by (simp add: str_defs)
  have f: "is_youtube_url ''https://YOUTU.BE/abc'' = Inr True"
    by (simp add: str_defs)
  have f1: "is_spotify_url ''https://YOUTU.BE/abc'' = Inr False"
    by (simp add: str_defs)
  have f2: "is_pinterest_url ''https://YOUTU.BE/abc'' = Inr False"
    by (simp add: str_defs)
  have s1: "strip ''https://OPEN.SPOTIFY.COM/track/1'' = ''https://OPEN.SPOTIFY.COM/track/1''"
    by (simp add: strip_def is_space_def)
  have s2: "strip ''https://PIN.IT/abc'' = ''https://PIN.IT/abc''"
    by (simp add: strip_def is_space_def)
  have s3: "strip ''https://YOUTU.BE/abc'' = ''https://YOUTU.BE/abc''"
    by (simp add: strip_def is_space_def)
  have g: "sends (snd (handle_message demo_env
                    (MessageUpdate 1 ''https://OPEN.SPOTIFY.COM/track/1'') fresh))
             = [ReplyText OnlySupported]"
    by (simp add: Let_def handle_message_def s1 b b1 b2 prog_defs startswith_def
          demo_env_def fresh_def)
  have h: "sends (snd (handle_message demo_env (MessageUpdate 1 ''https://PIN.IT/abc'') fresh))
             = [ReplyText PinterestDetected, ReplyText PinterestFailed]"
    by (simp add: Let_def handle_message_def s2 d d1 prog_defs startswith_def demo_env_def
          fresh_def download_pinterest_def download_pinterest_body_def find_tag_def)
  have i: "sends (snd (handle_message demo_env (MessageUpdate 1 ''https://YOUTU.BE/abc'') fresh))
             = [ReplyKeyboard [''yt|mp3|https://YOUTU.BE/abc'', ''yt|mp4|https://YOUTU.BE/abc'']]"
    by (simp add: Let_def handle_message_def s3 f f1 f2 prog_defs startswith_def
          demo_env_def fresh_def callback_data_def)
  from a b c d e f g h i show ?thesis by blast
qed

section \<open>Cleanup\<close>

text \<open>
  The button handler deletes the downloaded file in a \<open>finally\<close> (lines 244--250): when
  the upload raises, the file is gone all the same.
\<close>

lemma button_callback_cleans_up_on_send_failure:
  "button_callback
     (demo_env\<lparr>extract_info := (\<lambda>_ _. Inr ''downloads/Clip.webm''), transport := refusing_audio\<rparr>)
     (CallbackUpdate 1 ''yt|mp3|https://youtu.be/x'') fresh
   = (Inl ''Timed out'',
      \<lparr>files = {[''downloads'']},
       sends = [AnswerQuery, EditMessageText ''Downloading as MP3...'',
                ReplyAudio [''downloads'', ''Clip.mp3'']],
       calls = [ExtractInfo ''https://youtu.be/x'' ''mp3'']\<rparr>)"
proof -
  have p: "parse_callback ''yt|mp3|https://youtu.be/x'' = Inr (''mp3'', ''https://youtu.be/x'')"
    by (simp add: parse_callback_def numeral_2_eq_2)
  have r: "rsplit1_head CHR ''.'' ''downloads/Clip.webm'' @ ''.mp3'' = ''downloads/Clip.mp3''"
    by (simp add: rsplit1_head_def)
  have q: "Path ''downloads/Clip.mp3'' = [''downloads'', ''Clip.mp3'']"
    by code_simp
  have u: "upper ''mp3'' = ''MP3''"
    by (simp add: upper_def upper_char_def ascii_lower_def ascii_upper_def)
  show ?thesis
    by (simp add: button_callback_def download_youtube_def ydl_extract_def p r q u
          prog_defs startswith_def demo_env_def fresh_def refusing_audio_def DOWNLOAD_DIR_def)
qed

text \<open>
  C1. The batch pipeline has no such \<open>finally\<close>: its cleanup (lines 174--176) is the last
  statement of the \<open>try\<close>. A Spotify link whose single track downloads and packs well, on
  a transport where the document upload times out: the handler of line 178 reports the
  error, and the workspace, the track in it and the archive all remain on storage when
  the request is over.
\<close>

theorem spotify_send_failure_leaks:
  "let w = snd (handle_message (demo_env\<lparr>transport := refusing_documents\<rparr>)
                 (MessageUpdate 1 ''https://open.spotify.com/track/1'') fresh)
   in [''downloads'', ''temp_7''] \<in> files w \<and>
      [''downloads'', ''temp_7'', ''Track.mp3''] \<in> files w \<and>
      [''downloads'', ''Some_Artist.zip''] \<in> files w \<and>
      sends w = [ReplyText SpotifyDetected, ReplyText (FoundTracks 1),
                 ReplyDocument [''downloads'', ''Some_Artist.zip'']
                   ''Spotify download: Some Artist (1 tracks)'',
                 ReplyText (SpotifyError ''Timed out'')]"
proof -
  have a: "is_spotify_url ''https://open.spotify.com/track/1'' = Inr True"
    by (simp add: str_defs)
  have s: "strip ''https://open.spotify.com/track/1'' = ''https://open.spotify.com/track/1''"
    by (simp add: strip_def is_space_def)
  show ?thesis
    by (simp add: handle_message_def a s startswith_def spotify_defs prog_defs demo_env_def
          demo_song_def fresh_def refusing_documents_def Let_def below_eval)
qed

section \<open>Single-item download\<close>

text \<open>
  On success the audio request returns the prepared name with its last extension
  replaced by \<open>.mp3\<close>, whatever that extension was; and called with an update that
  carries a message, the function reports a failure in at most 200 characters and
  returns \<open>None\<close>.
\<close>

lemma download_youtube_mp3_path:
  "extract_info env url ''mp3'' = Inr filename \<Longrightarrow>
     fst (download_youtube env url ''mp3'' upd w)
       = Inr (Some (Path (rsplit1_head CHR ''.'' filename @ ''.mp3'')))"
  by (simp add: download_youtube_def ydl_extract_def prog_defs Let_def)

lemma rsplit1_head_ext:
  "CHR ''.'' \<notin> set ext \<Longrightarrow> rsplit1_head CHR ''.'' (stem @ CHR ''.'' # ext) = stem"
  by (simp add: rsplit1_head_def dropWhile_sep [of _ "rev ext" "rev stem", simplified])

lemma download_youtube_reports_to_message:
  "extract_info env url fmt = Inl e \<Longrightarrow> transport env (length (sends w)) (ReplyText (YouTubeFailed (take 200 e))) = None \<Longrightarrow>
     download_youtube env url fmt (MessageUpdate chat txt) w
       = (Inr None, w\<lparr>sends := sends w @ [ReplyText (YouTubeFailed (take 200 e))],
                       calls := calls w @ [ExtractInfo url fmt]\<rparr>)"
  by (simp add: download_youtube_def ydl_extract_def prog_defs)

text \<open>
  C8. The only caller of \<open>download_youtube\<close> is the button handler, which passes on the
  update of a button press, and \<open>update.message\<close> is \<open>None\<close> on such an update. When the
  extraction fails, the \<open>except\<close> branch of line 90 therefore raises \<open>AttributeError\<close>
  itself: no text is sent, the exception leaves \<open>download_youtube\<close> and the button
  handler (whose own replies go through \<open>query.message\<close>), and the "Downloading as MP3..."
  notice stays.
\<close>

theorem youtube_failure_report_raises:
  "button_callback demo_env (CallbackUpdate 1 (callback_data ''mp3'' ''https://youtu.be/x'')) fresh
     = (Inl ''AttributeError: NoneType object has no attribute reply'',
        \<lparr>files = {[''downloads'']},
         sends = [AnswerQuery, EditMessageText ''Downloading as MP3...''],
         calls = [ExtractInfo ''https://youtu.be/x'' ''mp3'']\<rparr>)"
  by (simp add: button_callback_def download_youtube_def ydl_extract_def parse_callback_def
        callback_data_def prog_defs str_defs demo_env_def fresh_def DOWNLOAD_DIR_def
        numeral_2_eq_2)

section \<open>Batch download\<close>

text \<open>
  C6. A track whose download raises (or returns nothing) does not stop the loop: with
  such a track \<open>s\<close> anywhere in the batch, \<open>download_song\<close> is still called for every
  descriptor of the batch, in order, those after \<open>s\<close> included; storage ends as it would
  have without \<open>s\<close> in the batch; and nothing is sent from inside the loop.
\<close>

theorem batch_survives_failure:
  assumes "download_song env s = Raises e \<or> download_song env s = Falsy"
  shows "calls (download_songs env d (xs @ s # ys) w) = calls w @ map DownloadSong (xs @ s # ys) \<and>
         files (download_songs env d (xs @ s # ys) w) = files (download_songs env d (xs @ ys) w) \<and>
         sends (download_songs env d (xs @ s # ys) w) = sends w"
proof -
  let ?w = "download_songs env d xs w"
  have "files (snd (download_one env d s ?w)) = files ?w"
    using assms by (rule download_one_failed)
  then have "files (download_songs env d ys (snd (download_one env d s ?w)))
           = files (download_songs env d ys ?w)"
    by (rule download_songs_files_cong)
  then have "files (download_songs env d (xs @ s # ys) w) = files (download_songs env d (xs @ ys) w)"
    by (simp add: download_songs_append)
  then show ?thesis by (simp add: download_songs_calls download_songs_sends)
qed

theorem batch_survives_failure_witness:
  "(download_song flaky_env song_bad = Raises ''boom'' \<or> download_song flaky_env song_bad = Falsy) \<and>
   calls (download_songs flaky_env [''downloads'', ''temp_7''] [song_a, song_bad, song_b] fresh)
     = [DownloadSong song_a, DownloadSong song_bad, DownloadSong song_b] \<and>
   files (download_songs flaky_env [''downloads'', ''temp_7''] [song_a, song_bad, song_b] fresh)
     = {[''downloads''], [''downloads'', ''temp_7'', ''A.mp3''], [''downloads'', ''temp_7'', ''B.mp3'']}"
proof -
  have h: "download_song flaky_env song_bad = Raises ''boom'' \<or>
           download_song flaky_env song_bad = Falsy"
    by (simp add: flaky_env_def song_bad_def)
  have f: "files (download_songs flaky_env [''downloads'', ''temp_7''] [song_a, song_b] fresh)
     = {[''downloads''], [''downloads'', ''temp_7'', ''A.mp3''], [''downloads'', ''temp_7'', ''B.mp3'']}"
    by (auto simp add: flaky_env_def demo_env_def song_a_def song_b_def fresh_def
          download_one_def move_in_def prog_defs DOWNLOAD_DIR_def)
  show ?thesis
    using batch_survives_failure [OF h, of "[''downloads'', ''temp_7'']" "[song_a]" "[song_b]" fresh] h f
    by (simp add: fresh_def)
qed

section \<open>Scrape download\<close>



section \<open>Size gate\<close>



section \<open>Names on transient storage\<close>



section \<open>Batch archive\<close>





end
